theory Spec2Isabelle
  imports Main "HOL-Library.Sublist"
begin

section \<open>Python strings\<close>

text \<open>
  A Python \<open>str\<close> is modelled as a \<open>string\<close> whose characters are the code points
  below 256. \<open>lower\<close>, \<open>strip\<close>, \<open>startswith\<close>, \<open>in\<close>, \<open>split\<close> and \<open>join\<close> are the
  string methods the serving path uses.
\<close>

definition lower_char :: "char \<Rightarrow> char" where
  "lower_char c =
     (let n = (of_char c :: nat)
      in if (65 \<le> n \<and> n \<le> 90) \<or> (192 \<le> n \<and> n \<le> 222 \<and> n \<noteq> 215)
         then char_of (n + 32) else c)"

definition lower :: "string \<Rightarrow> string" where
  "lower s = map lower_char s"

definition isspace :: "char \<Rightarrow> bool" where
  "isspace c =
     (let n = (of_char c :: nat)
      in (9 \<le> n \<and> n \<le> 13) \<or> (28 \<le> n \<and> n \<le> 32) \<or> n = 133 \<or> n = 160)"

definition strip :: "string \<Rightarrow> string" where
  "strip s = rev (dropWhile isspace (rev (dropWhile isspace s)))"

definition startswith :: "string \<Rightarrow> string \<Rightarrow> bool" where
  "startswith s p = (take (length p) s = p)"

text \<open>\<open>str_in needle hay\<close> is Python's \<open>needle in hay\<close> on strings.\<close>

fun str_in :: "string \<Rightarrow> string \<Rightarrow> bool" where
  "str_in needle [] = (needle = [])"
| "str_in needle (c # cs) = (startswith (c # cs) needle \<or> str_in needle cs)"

text \<open>\<open>split_on sep s\<close> is \<open>s.split(sep)\<close> for a one-character separator.\<close>

fun split_on :: "char \<Rightarrow> string \<Rightarrow> string list" where
  "split_on sep [] = [[]]"
| "split_on sep (c # cs) =
     (if c = sep then [] # split_on sep cs
      else (case split_on sep cs of
              [] \<Rightarrow> [[c]]
            | w # ws \<Rightarrow> (c # w) # ws))"

text \<open>\<open>join sep xs\<close> is \<open>sep.join(xs)\<close>.\<close>

fun join :: "string \<Rightarrow> string list \<Rightarrow> string" where
  "join sep [] = []"
| "join sep [x] = x"
| "join sep (x # y # ys) = x @ sep @ join sep (y # ys)"

definition newline :: string where
  "newline = [CHR 0x0A]"

text \<open>
  \<open>clean_text\<close> of \<open>helpers/utils.py\<close>: the two \<open>re.sub\<close> calls delete the characters of
  two character classes, then the text is stripped.
\<close>

definition clean_text :: "string \<Rightarrow> string" where
  "clean_text text0 =
     (let text1 = filter (\<lambda>c. c \<notin> set ([CHR 0x22, CHR 0x27] @ ''[]'')) text0;
          text2 = filter (\<lambda>c. c \<notin> set ''.,!?;:(){}'') text1
      in strip text2)"

section \<open>Prompts\<close>

definition GENERATION_SYSTEM_PROMPT :: string where
  "GENERATION_SYSTEM_PROMPT =
     ''You are a helpful AI assistant. Use the given context to answer the user'' @ [CHR 0x27] @ ''s question.''"

definition CLASSIFIER_SYSTEM_PROMPT :: string where
  "CLASSIFIER_SYSTEM_PROMPT =
     ''You are an expert in classifying queries by their relevance to a dataset containing information about jobs and products.\<newline>        Classify the input query into exactly one of the following categories:\<newline>        - **Irrelevant**: The query is unrelated to jobs or products. Includes greetings, casual conversation, or meta-questions about the system.\<newline>        - **Relevant**: The query directly concerns jobs or products and can be answered using the indexed data.\<newline>        - **Complex**: The query is related to jobs or products but requires multi-step reasoning, comparisons, or advanced filtering.\<newline>\<newline>        Respond with only the category name: '' @ [CHR 0x60] @ ''Irrelevant'' @ [CHR 0x60] @ '', '' @ [CHR 0x60] @ ''Relevant'' @ [CHR 0x60] @ '', or '' @ [CHR 0x60] @ ''Complex'' @ [CHR 0x60] @ ''. Do not include any explanation or additional text.\<newline>        ''"

definition ENTITY_SYSTEM_PROMPT :: string where
  "ENTITY_SYSTEM_PROMPT =
     ''You are expert at extracting entities from the text. these entities will be used for graph data retrieval.\<newline>You must generate the output as a python list of strings, where each element represents an extracted entity. Do not output any reasoning, Provide the list only.''"

text \<open>The three templates, with \<open>str.format\<close> applied to their named fields.\<close>

definition CLASSIFIER_PROMPT :: "string \<Rightarrow> string" where
  "CLASSIFIER_PROMPT query = ''Classify this query: '' @ query"

definition ENTITY_PROMPT :: "string \<Rightarrow> string" where
  "ENTITY_PROMPT query =
     [CHR 0x22] @ ''Use the given format to extract entities from the following input: '' @ query"

definition GENERATION_PROMPT :: "string \<Rightarrow> string \<Rightarrow> string" where
  "GENERATION_PROMPT question context =
     ''Answer the question below from the following context:\<newline>### Context: '' @ context
       @ ''\<newline>### question: '' @ question @ ''\<newline>''"

section \<open>Data model\<close>

text \<open>A turn of the conversation: the dict \<open>{"role": ..., "content": ...}\<close>.\<close>

record message =
  role :: string
  content :: string

text \<open>Exceptions, as values.\<close>

datatype error =
    HTTPException nat string
  | ConnectionError
  | JSONDecodeError
  | UnicodeDecodeError
  | KeyError
  | IndexError
  | TypeError
  | AttributeError
  | BackendError string

text \<open>What \<open>json.loads\<close> and \<open>response.json()\<close> return.\<close>

datatype json =
    JNull
  | JBool bool
  | JNum int
  | JStr string
  | JArr "json list"
  | JObj "(string \<times> json) list"

text \<open>
  \<open>obj[key]\<close> with a string key, \<open>obj[i]\<close> with an index, \<open>obj.get(key, default)\<close> and
  \<open>obj.strip()\<close>, raising what Python raises on the other kinds of value. A later
  duplicate key of a JSON object wins, as in \<open>json.loads\<close>.
\<close>

fun getitem_key :: "json \<Rightarrow> string \<Rightarrow> error + json" where
  "getitem_key (JObj kvs) key =
     (case map_of (rev kvs) key of None \<Rightarrow> Inl KeyError | Some v \<Rightarrow> Inr v)"
| "getitem_key _ key = Inl TypeError"

fun getitem_index :: "json \<Rightarrow> nat \<Rightarrow> error + json" where
  "getitem_index (JArr xs) i = (if i < length xs then Inr (xs ! i) else Inl IndexError)"
| "getitem_index (JStr s) i = (if i < length s then Inr (JStr [s ! i]) else Inl IndexError)"
| "getitem_index (JObj kvs) i = Inl KeyError"
| "getitem_index _ i = Inl TypeError"

fun get_default :: "json \<Rightarrow> string \<Rightarrow> json \<Rightarrow> error + json" where
  "get_default (JObj kvs) key d =
     Inr (case map_of (rev kvs) key of None \<Rightarrow> d | Some v \<Rightarrow> v)"
| "get_default _ key d = Inl AttributeError"

fun json_strip :: "json \<Rightarrow> error + string" where
  "json_strip (JStr s) = Inr (strip s)"
| "json_strip _ = Inl AttributeError"

definition bind_err :: "error + 'a \<Rightarrow> ('a \<Rightarrow> error + 'b) \<Rightarrow> error + 'b" where
  "bind_err r f = (case r of Inl e \<Rightarrow> Inl e | Inr x \<Rightarrow> f x)"

text \<open>
  A \<open>requests.Response\<close>: what \<open>.json()\<close> returns or raises, and the lines that
  \<open>.iter_lines()\<close> yields.
\<close>

record response =
  resp_json :: "error + json"
  resp_lines :: "string list"

text \<open>
  The request body of \<open>call_model\<close>; its \<open>model\<close>, \<open>temperature\<close> and \<open>top_p\<close> fields are
  constants.
\<close>

record payload =
  messages :: "message list"
  max_tokens :: int
  stream :: bool

text \<open>
  The calls that leave the process, in the order they are made: a POST to the
  generation backend, \<open>ElasticsearchRetrievalManager.search\<close>,
  \<open>GraphDatabaseManager.search\<close> and each \<open>graph.query\<close> inside it, and the reads and
  writes of the chat history.
\<close>

datatype call =
    ModelCall payload
  | VectorSearch string int
  | GraphSearch string
  | GraphQuery string
  | HistoryGet string
  | HistoryPut string "message list"

text \<open>
  The outside world: each backend answers a call with a value or an exception, and may
  depend on every call made before. \<open>json_loads\<close> and \<open>utf8_decode\<close> are the library
  functions \<open>json.loads\<close> and \<open>bytes.decode("utf-8")\<close>; \<open>uuid4\<close> is \<open>str(uuid.uuid4())\<close>.
\<close>

record env =
  vllm_post :: "call list \<Rightarrow> payload \<Rightarrow> error + response"
  asimilarity_search :: "call list \<Rightarrow> string \<Rightarrow> int \<Rightarrow> error + string list"
  graph_query :: "call list \<Rightarrow> string \<Rightarrow> error + string list"
  json_loads :: "string \<Rightarrow> error + json"
  utf8_decode :: "string \<Rightarrow> error + string"
  uuid4 :: "call list \<Rightarrow> string"

text \<open>
  The state a request runs in: the calls made so far and the chat-history index, a
  document per session id.
\<close>

record world =
  calls :: "call list"
  history :: "string \<rightharpoonup> message list"

definition log_call :: "call \<Rightarrow> world \<Rightarrow> world" where
  "log_call c w = w\<lparr>calls := calls w @ [c]\<rparr>"

section \<open>The generation backend: \<open>call_model\<close>\<close>

datatype model_result = Completion string | Streaming response

definition completion_content :: "response \<Rightarrow> error + string" where
  "completion_content r =
     bind_err (resp_json r) (\<lambda>j.
     bind_err (getitem_key j ''choices'') (\<lambda>cs.
     bind_err (getitem_index cs 0) (\<lambda>c.
     bind_err (getitem_key c ''message'') (\<lambda>m.
     bind_err (getitem_key m ''content'') json_strip))))"

definition call_model ::
  "env \<Rightarrow> world \<Rightarrow> message list \<Rightarrow> int \<Rightarrow> bool \<Rightarrow> (error + model_result) \<times> world" where
  "call_model ev w msgs max_toks strm =
     (let p = \<lparr>messages = msgs, max_tokens = max_toks, stream = strm\<rparr>;
          w' = log_call (ModelCall p) w
      in case vllm_post ev (calls w) p of
           Inl e \<Rightarrow> (Inl e, w')
         | Inr r \<Rightarrow>
             if \<not> strm then (map_sum id Completion (completion_content r), w')
             else (Inr (Streaming r), w'))"

section \<open>The query classifier: \<open>AdaptiveRAG._classify\<close>\<close>

definition valid_categories :: "string list" where
  "valid_categories = [''irrelevant'', ''relevant'', ''complex'']"

text \<open>The \<open>for valid in valid_categories\<close> loop: the first name found in the output.\<close>

fun first_valid :: "string list \<Rightarrow> string \<Rightarrow> string option" where
  "first_valid [] category = None"
| "first_valid (valid # rest) category =
     (if str_in (lower valid) (lower category) then Some valid
      else first_valid rest category)"

text \<open>What \<open>_classify\<close> returns once \<open>call_model\<close> has returned \<open>category\<close>.\<close>

definition classify_output :: "string \<Rightarrow> string" where
  "classify_output category =
     (case first_valid valid_categories category of
        Some valid \<Rightarrow> valid
      | None \<Rightarrow> ''relevant'')"

definition classify_messages :: "string \<Rightarrow> message list" where
  "classify_messages query =
     [\<lparr>role = ''system'', content = CLASSIFIER_SYSTEM_PROMPT\<rparr>,
      \<lparr>role = ''system'', content = CLASSIFIER_PROMPT query\<rparr>]"

definition classify :: "env \<Rightarrow> world \<Rightarrow> string \<Rightarrow> (error + string) \<times> world" where
  "classify ev w query =
     (case call_model ev w (classify_messages query) 5 False of
        (Inl e, w') \<Rightarrow> (Inl e, w')
      | (Inr (Completion category), w') \<Rightarrow> (Inr (classify_output category), w')
      | (Inr (Streaming r), w') \<Rightarrow> (Inl AttributeError, w'))"

section \<open>The retrieval backends\<close>

text \<open>
  \<open>ElasticsearchRetrievalManager.search\<close>: the page contents of the hits joined by
  newlines. Its \<open>except Exception\<close> turns every failure of the similarity search into
  the empty string, so the method itself never raises.
\<close>

definition es_search :: "env \<Rightarrow> world \<Rightarrow> string \<Rightarrow> int \<Rightarrow> string \<times> world" where
  "es_search ev w query top_k =
     (let w' = log_call (VectorSearch query top_k) w
      in case asimilarity_search ev (calls w) query top_k of
           Inl e \<Rightarrow> ([], w')
         | Inr docs \<Rightarrow> (join newline docs, w'))"

text \<open>\<open>GraphDatabaseManager.extract_entities\<close>.\<close>

definition extract_entities_messages :: "string \<Rightarrow> message list" where
  "extract_entities_messages query =
     [\<lparr>role = ''system'', content = ENTITY_SYSTEM_PROMPT\<rparr>,
      \<lparr>role = ''user'', content = ENTITY_PROMPT query\<rparr>]"

definition extract_entities :: "env \<Rightarrow> world \<Rightarrow> string \<Rightarrow> (error + string list) \<times> world" where
  "extract_entities ev w query =
     (case call_model ev w (extract_entities_messages query) 50 False of
        (Inl e, w') \<Rightarrow> (Inl e, w')
      | (Inr (Completion resp), w') \<Rightarrow>
          (Inr (map (\<lambda>name. clean_text (strip name))
                  (filter (\<lambda>name. strip name \<noteq> []) (split_on CHR '','' resp))), w')
      | (Inr (Streaming r), w') \<Rightarrow> (Inl AttributeError, w'))"

text \<open>
  \<open>GraphDatabaseManager.search\<close>. The loop over the entities: \<open>graph.query\<close> answers with
  the \<open>output\<close> column of its rows or raises, and nothing in the loop catches.
\<close>

fun graph_search_loop ::
  "env \<Rightarrow> world \<Rightarrow> string list \<Rightarrow> string \<Rightarrow> (error + string) \<times> world" where
  "graph_search_loop ev w [] result = (Inr result, w)"
| "graph_search_loop ev w (entity # rest) result =
     (let w' = log_call (GraphQuery entity) w
      in case graph_query ev (calls w) entity of
           Inl e \<Rightarrow> (Inl e, w')
         | Inr rows \<Rightarrow> graph_search_loop ev w' rest (result @ join newline rows @ newline))"

definition graph_search :: "env \<Rightarrow> world \<Rightarrow> string \<Rightarrow> (error + string) \<times> world" where
  "graph_search ev w query =
     (case extract_entities ev (log_call (GraphSearch query) w) query of
        (Inl e, w') \<Rightarrow> (Inl e, w')
      | (Inr entities, w') \<Rightarrow> graph_search_loop ev w' entities [])"

section \<open>The strategies\<close>

datatype rag = FusionRAG | GraphRAG | AdaptiveRAG

text \<open>\<open>AdaptiveRAG.retrieve\<close>: the retrieval router.\<close>

definition adaptive_retrieve ::
  "env \<Rightarrow> world \<Rightarrow> string \<Rightarrow> int \<Rightarrow> (error + string) \<times> world" where
  "adaptive_retrieve ev w query k =
     (case classify ev w query of
        (Inl e, w1) \<Rightarrow> (Inl e, w1)
      | (Inr category, w1) \<Rightarrow>
          if category = ''relevant'' then
            (case es_search ev w1 query k of (result, w2) \<Rightarrow> (Inr result, w2))
          else if category = ''complex'' then
            (case es_search ev w1 query k of
               (hybrid_res, w2) \<Rightarrow>
                 (case graph_search ev w2 query of
                    (Inl e, w3) \<Rightarrow> (Inl e, w3)
                  | (Inr g_res, w3) \<Rightarrow> (Inr (hybrid_res @ newline @ g_res), w3)))
          else (Inr [], w1))"

text \<open>\<open>retrieve\<close> of each strategy.\<close>

fun retrieve :: "rag \<Rightarrow> env \<Rightarrow> world \<Rightarrow> string \<Rightarrow> int \<Rightarrow> (error + string) \<times> world" where
  "retrieve FusionRAG ev w query k =
     (case es_search ev w query k of (results, w') \<Rightarrow> (Inr results, w'))"
| "retrieve GraphRAG ev w query k = graph_search ev w query"
| "retrieve AdaptiveRAG ev w query k = adaptive_retrieve ev w query k"

text \<open>
  \<open>generate\<close>, the same in the three strategies: a copy of the history with the grounded
  question appended goes to the generation backend in streaming mode.
\<close>

definition generate ::
  "env \<Rightarrow> world \<Rightarrow> string \<Rightarrow> message list \<Rightarrow> string \<Rightarrow> (error + model_result) \<times> world" where
  "generate ev w query msgs context =
     (let messages_copy = msgs @ [\<lparr>role = ''user'', content = GENERATION_PROMPT query context\<rparr>]
      in call_model ev w messages_copy 500 True)"

text \<open>\<open>BaseRAG.__call__\<close>.\<close>

definition rag_call ::
  "rag \<Rightarrow> env \<Rightarrow> world \<Rightarrow> string \<Rightarrow> message list \<Rightarrow> int \<Rightarrow> (error + model_result) \<times> world" where
  "rag_call r ev w query msgs k =
     (case retrieve r ev w query k of
        (Inl e, w') \<Rightarrow> (Inl e, w')
      | (Inr contexts, w') \<Rightarrow> generate ev w' query msgs contexts)"

section \<open>The chat history\<close>

text \<open>
  \<open>ElasticsearchHistoryManager\<close>, over the documents of the index kept as a map:
  \<open>get_chat_history\<close> answers the stored list, and the empty list for a session without
  a document (the three ways the method has of returning \<open>[]\<close>); \<open>store_chat_history\<close>
  upserts the document of the session. The index is taken to answer: a transport
  failure of Elasticsearch on these two calls is not part of the model.
\<close>

definition get_chat_history :: "world \<Rightarrow> string \<Rightarrow> message list \<times> world" where
  "get_chat_history w sid =
     ((case history w sid of None \<Rightarrow> [] | Some h \<Rightarrow> h), log_call (HistoryGet sid) w)"

definition store_chat_history :: "world \<Rightarrow> string \<Rightarrow> message list \<Rightarrow> world" where
  "store_chat_history w sid msgs =
     (log_call (HistoryPut sid msgs) w)\<lparr>history := (history w)(sid \<mapsto> msgs)\<rparr>"

section \<open>The endpoint: \<open>chat\<close>\<close>

record query_input =
  question :: string
  rag_type :: string
  session_id :: "string option"

definition default_rag_type :: string where
  "default_rag_type = ''Fusion''"

definition RAG_REGISTRY :: "(string \<times> rag) list" where
  "RAG_REGISTRY = [(''fusion'', FusionRAG), (''graph'', GraphRAG), (''adaptive'', AdaptiveRAG)]"

definition invalid_rag_detail :: "string \<Rightarrow> string" where
  "invalid_rag_detail rt =
     ''Invalid RAG type: '' @ rt @ ''. Available types: [''
       @ join '', '' (map (\<lambda>(name, r). [CHR 0x27] @ name @ [CHR 0x27]) RAG_REGISTRY) @ '']''"

text \<open>Lines 37 to 43 of \<open>chat\<close>: the lookup of the strategy.\<close>

definition select_rag :: "string \<Rightarrow> error + rag" where
  "select_rag requested =
     (let rt = lower requested
      in case map_of RAG_REGISTRY rt of
           None \<Rightarrow> Inl (HTTPException 400 (invalid_rag_detail rt))
         | Some rag_instance \<Rightarrow> Inr rag_instance)"

text \<open>
  The generator \<open>generate_response\<close>, suspended: the lines of the backend's stream not
  yet read, the answer accumulated so far, and where it stands. \<open>Terminal\<close> is the
  suspension at the last \<open>yield\<close>, before the assistant turn is appended and stored.
\<close>

datatype phase = Running | Terminal | Finished

record generator =
  g_session_id :: string
  g_messages :: "message list"
  g_lines :: "string list"
  final_full_response :: string
  g_phase :: phase

definition chat :: "env \<Rightarrow> world \<Rightarrow> query_input \<Rightarrow> (error + generator) \<times> world" where
  "chat ev w request =
     (case select_rag (rag_type request) of
        Inl e \<Rightarrow> (Inl e, w)
      | Inr rag_instance \<Rightarrow>
          (case (case session_id request of
                   None \<Rightarrow> (uuid4 ev (calls w), [], w)
                 | Some sid \<Rightarrow>
                     if sid = [] then (uuid4 ev (calls w), [], w)
                     else (case get_chat_history w sid of (msgs, w1) \<Rightarrow> (sid, msgs, w1))) of
             (sid, loaded, w1) \<Rightarrow>
               (let msgs = (if loaded = []
                            then [\<lparr>role = ''system'', content = GENERATION_SYSTEM_PROMPT\<rparr>]
                            else loaded)
                in case rag_call rag_instance ev w1 (question request) msgs 5 of
                     (Inl e, w2) \<Rightarrow> (Inl e, w2)
                   | (Inr (Completion text), w2) \<Rightarrow> (Inl AttributeError, w2)
                   | (Inr (Streaming response_stream), w2) \<Rightarrow>
                       (Inr \<lparr>g_session_id = sid,
                             g_messages = msgs @ [\<lparr>role = ''user'', content = question request\<rparr>],
                             g_lines = resp_lines response_stream,
                             final_full_response = [],
                             g_phase = Running\<rparr>, w2))))"

section \<open>The streamed answer: \<open>generate_response\<close>\<close>

text \<open>
  A server-sent event: the payload \<open>{"token": ..., "session_id": ...}\<close> that goes out as
  \<open>data: <json>\<close> followed by a blank line.
\<close>

record sse_event =
  token :: string
  event_session_id :: string

text \<open>
  \<open>token_data["choices"][0]["delta"].get("content", "")\<close> of the parsed chunk.
\<close>

definition delta_content :: "env \<Rightarrow> string \<Rightarrow> error + json" where
  "delta_content ev json_str =
     bind_err (json_loads ev json_str) (\<lambda>token_data.
     bind_err (getitem_key token_data ''choices'') (\<lambda>cs.
     bind_err (getitem_index cs 0) (\<lambda>c.
     bind_err (getitem_key c ''delta'') (\<lambda>d.
     get_default d ''content'' (JStr [])))))"

text \<open>
  The \<open>for line in response_stream.iter_lines()\<close> loop up to its next \<open>yield\<close>: empty
  lines and lines that do not start with \<open>data:\<close> are skipped, \<open>[DONE]\<close> breaks, and the
  loop also ends when the lines run out. Nothing catches what decoding, parsing or the
  concatenation of a non-string raise.
\<close>

datatype scan = Token string "string list" | EndOfStream | ScanError error

fun next_content :: "env \<Rightarrow> string list \<Rightarrow> scan" where
  "next_content ev [] = EndOfStream"
| "next_content ev (line # rest) =
     (if line = [] then next_content ev rest
      else (case utf8_decode ev line of
              Inl e \<Rightarrow> ScanError e
            | Inr decoded_line \<Rightarrow>
                if startswith decoded_line ''data:'' then
                  (let json_str = strip (drop 5 decoded_line)
                   in if json_str = ''[DONE]'' then EndOfStream
                      else (case delta_content ev json_str of
                              Inl e \<Rightarrow> ScanError e
                            | Inr (JStr c) \<Rightarrow> Token c rest
                            | Inr _ \<Rightarrow> ScanError TypeError))
                else next_content ev rest))"

text \<open>
  One resumption of the generator (\<open>__anext__\<close>): it runs to the next \<open>yield\<close>, to its end
  or to an exception. The code after the last \<open>yield\<close>, which appends the assistant turn
  and stores the history, runs only when the generator is resumed from \<open>Terminal\<close>.
\<close>

datatype step = Yielded sse_event | StopAsyncIteration | Raised error

definition resume :: "env \<Rightarrow> generator \<Rightarrow> world \<Rightarrow> step \<times> generator \<times> world" where
  "resume ev g w =
     (case g_phase g of
        Running \<Rightarrow>
          (case next_content ev (g_lines g) of
             Token c rest \<Rightarrow>
               (Yielded \<lparr>token = c, event_session_id = g_session_id g\<rparr>,
                g\<lparr>g_lines := rest, final_full_response := final_full_response g @ c\<rparr>, w)
           | EndOfStream \<Rightarrow>
               (Yielded \<lparr>token = [], event_session_id = g_session_id g\<rparr>,
                g\<lparr>g_phase := Terminal\<rparr>, w)
           | ScanError e \<Rightarrow> (Raised e, g\<lparr>g_phase := Finished\<rparr>, w))
      | Terminal \<Rightarrow>
          (let msgs = g_messages g
                        @ [\<lparr>role = ''assistant'', content = final_full_response g\<rparr>]
           in (StopAsyncIteration, g\<lparr>g_messages := msgs, g_phase := Finished\<rparr>,
               store_chat_history w (g_session_id g) msgs))
      | Finished \<Rightarrow> (StopAsyncIteration, g, w))"

text \<open>
  The consumer of the \<open>StreamingResponse\<close>: it sends each event as it is yielded and
  resumes the generator for the next one. \<open>n\<close> bounds the resumptions: a client that
  goes away leaves the generator suspended at a \<open>yield\<close>, never resumed
  (\<open>Disconnected\<close>).
\<close>

datatype outcome = Completed | Failed error | Disconnected

fun consume ::
  "env \<Rightarrow> nat \<Rightarrow> generator \<Rightarrow> world \<Rightarrow> sse_event list \<times> outcome \<times> generator \<times> world" where
  "consume ev 0 g w = ([], Disconnected, g, w)"
| "consume ev (Suc n) g w =
     (case resume ev g w of
        (Yielded e, g', w') \<Rightarrow>
          (case consume ev n g' w' of (es, out, g'', w'') \<Rightarrow> (e # es, out, g'', w''))
      | (StopAsyncIteration, g', w') \<Rightarrow> ([], Completed, g', w')
      | (Raised e, g', w') \<Rightarrow> ([], Failed e, g', w'))"

text \<open>The history documents written by a sequence of calls, in order.\<close>

fun commits :: "call list \<Rightarrow> (string \<times> message list) list" where
  "commits [] = []"
| "commits (HistoryPut sid msgs # cs) = (sid, msgs) # commits cs"
| "commits (c # cs) = commits cs"

text \<open>The history a request starts from: what \<open>chat\<close> loads, seeded when empty.\<close>

definition initial_messages :: "world \<Rightarrow> query_input \<Rightarrow> message list" where
  "initial_messages w request =
     (let loaded = (case session_id request of
                      None \<Rightarrow> []
                    | Some sid \<Rightarrow>
                        if sid = [] then []
                        else (case history w sid of None \<Rightarrow> [] | Some h \<Rightarrow> h))
      in if loaded = [] then [\<lparr>role = ''system'', content = GENERATION_SYSTEM_PROMPT\<rparr>]
         else loaded)"

section \<open>Concrete backends\<close>

text \<open>
  Backends with fixed answers, to run the definitions on: the bodies of a completion
  and of a streamed chunk, a parser that knows the chunks of one answer, and an
  environment built from the classifier's output, the hits of the similarity search,
  the entity list, the rows of the graph and the lines of the stream.
\<close>

definition completion_json :: "string \<Rightarrow> json" where
  "completion_json c =
     JObj [(''choices'', JArr [JObj [(''message'', JObj [(''content'', JStr c)])]])]"

definition chunk_json :: "string \<Rightarrow> json" where
  "chunk_json c =
     JObj [(''choices'', JArr [JObj [(''delta'', JObj [(''content'', JStr c)])]])]"

definition chunk_text :: "string \<Rightarrow> string" where
  "chunk_text c =
     ''{'' @ [CHR 0x22] @ ''choices'' @ [CHR 0x22] @ '': [{'' @ [CHR 0x22] @ ''delta''
       @ [CHR 0x22] @ '': {'' @ [CHR 0x22] @ ''content'' @ [CHR 0x22] @ '': '' @ [CHR 0x22]
       @ c @ [CHR 0x22] @ ''}}]}''"

definition answer_tokens :: "string list" where
  "answer_tokens = [''The'', '' return'', '' policy'', '' is'', '' 30 days.'']"

definition chunk_parser :: "string \<Rightarrow> error + json" where
  "chunk_parser s =
     (case map_of (map (\<lambda>c. (chunk_text c, chunk_json c)) answer_tokens) s of
        None \<Rightarrow> Inl JSONDecodeError
      | Some j \<Rightarrow> Inr j)"

definition answer_lines :: "string list" where
  "answer_lines =
     concat (map (\<lambda>c. [''data: '' @ chunk_text c, []]) answer_tokens) @ [''data: [DONE]'', []]"

definition truncated_lines :: "string list" where
  "truncated_lines = concat (map (\<lambda>c. [''data: '' @ chunk_text c, []]) (take 2 answer_tokens))"

definition policy_session :: string where
  "policy_session = ''6f1c2d3e-0000-4000-8000-000000000001''"

definition fixed_env ::
  "string \<Rightarrow> error + string list \<Rightarrow> string \<Rightarrow> (string \<Rightarrow> error + string list)
     \<Rightarrow> string list \<Rightarrow> env" where
  "fixed_env class_out hits entities rows lines =
     \<lparr>vllm_post = (\<lambda>tr p.
         if stream p then Inr \<lparr>resp_json = Inl JSONDecodeError, resp_lines = lines\<rparr>
         else if max_tokens p = 5
           then Inr \<lparr>resp_json = Inr (completion_json class_out), resp_lines = []\<rparr>
           else Inr \<lparr>resp_json = Inr (completion_json entities), resp_lines = []\<rparr>),
      asimilarity_search = (\<lambda>tr q k. hits),
      graph_query = (\<lambda>tr entity. rows entity),
      json_loads = chunk_parser,
      utf8_decode = Inr,
      uuid4 = (\<lambda>tr. policy_session)\<rparr>"

definition unreachable_env :: env where
  "unreachable_env =
     (fixed_env [] (Inr []) [] (\<lambda>entity. Inr []) [])
       \<lparr>vllm_post := (\<lambda>tr p. Inl ConnectionError)\<rparr>"

definition w0 :: world where
  "w0 = \<lparr>calls = [], history = Map.empty\<rparr>"

definition policy_env :: env where
  "policy_env =
     fixed_env ''Relevant'' (Inr [''Returns are accepted within 30 days of purchase.''])
       [] (\<lambda>entity. Inr []) answer_lines"

definition policy_request :: query_input where
  "policy_request =
     \<lparr>question = ''What is the return policy?'', rag_type = ''adaptive'', session_id = None\<rparr>"

text \<open>An environment whose classifier answers \<open>out\<close>, with empty retrieval results.\<close>

definition classifier_env :: "string \<Rightarrow> env" where
  "classifier_env out = fixed_env out (Inr []) [] (\<lambda>entity. Inr []) []"

definition tie_break_output :: string where
  "tie_break_output = ''This is Relevant but also Complex''"

definition laptop_query :: string where
  "laptop_query = ''Which laptop under 1000 dollars has the longest battery life?''"

text \<open>The similarity search raises; the graph has one row for the one entity.\<close>

definition es_down_env :: "string \<Rightarrow> env" where
  "es_down_env class_out =
     fixed_env class_out (Inl (BackendError ''elasticsearch unavailable'')) ''Alice''
       (\<lambda>entity. Inr [''Alice - WORKS_FOR -> Acme'']) answer_lines"

text \<open>Two entities are extracted; the graph query of the first one raises.\<close>

definition graph_down_env :: env where
  "graph_down_env =
     fixed_env ''Complex'' (Inr [''Acme is hiring engineers.'']) ''Alice, Bob''
       (\<lambda>entity. if entity = ''Alice'' then Inl (BackendError ''neo4j unavailable'')
                else Inr [''Bob - KNOWS -> Carol''])
       answer_lines"

text \<open>The stream of the backend ends after two chunks, without \<open>[DONE]\<close>.\<close>

definition truncated_env :: env where
  "truncated_env =
     fixed_env ''Relevant'' (Inr [''Returns are accepted within 30 days of purchase.''])
       [] (\<lambda>entity. Inr []) truncated_lines"

text \<open>A session that already has one exchange, and a request that continues it.\<close>

definition earlier_turns :: "message list" where
  "earlier_turns =
     [\<lparr>role = ''system'', content = GENERATION_SYSTEM_PROMPT\<rparr>,
      \<lparr>role = ''user'', content = ''Do you ship abroad?''\<rparr>,
      \<lparr>role = ''assistant'', content = ''Yes, to most countries.''\<rparr>]"

definition returning_world :: world where
  "returning_world = \<lparr>calls = [], history = [''session-42'' \<mapsto> earlier_turns]\<rparr>"

definition followup_request :: query_input where
  "followup_request =
     \<lparr>question = ''What is the return policy?'', rag_type = ''Fusion'',
       session_id = Some ''session-42''\<rparr>"

definition system_turn :: message where
  "system_turn = \<lparr>role = ''system'', content = GENERATION_SYSTEM_PROMPT\<rparr>"

text \<open>The payloads of the two non-streaming calls, as they appear among the calls.\<close>

definition classification_call :: "string \<Rightarrow> call" where
  "classification_call query =
     ModelCall \<lparr>messages = classify_messages query, max_tokens = 5, stream = False\<rparr>"

definition entity_call :: "string \<Rightarrow> call" where
  "entity_call query =
     ModelCall \<lparr>messages = extract_entities_messages query, max_tokens = 50, stream = False\<rparr>"

definition generation_call :: "message list \<Rightarrow> string \<Rightarrow> string \<Rightarrow> call" where
  "generation_call msgs query context =
     ModelCall \<lparr>messages = msgs @ [\<lparr>role = ''user'', content = GENERATION_PROMPT query context\<rparr>],
                 max_tokens = 500, stream = True\<rparr>"

text \<open>
  The request of the return-policy scenario: its user turn, the generator \<open>chat\<close> returns
  for it, the calls \<open>chat\<close> makes, and an event of its stream.
\<close>

definition user_turn :: message where
  "user_turn = \<lparr>role = ''user'', content = ''What is the return policy?''\<rparr>"

definition policy_generator :: "string list \<Rightarrow> generator" where
  "policy_generator ls =
     \<lparr>g_session_id = policy_session, g_messages = [system_turn, user_turn],
       g_lines = ls, final_full_response = [], g_phase = Running\<rparr>"

definition policy_calls :: "call list" where
  "policy_calls =
     [classification_call ''What is the return policy?'',
      VectorSearch ''What is the return policy?'' 5,
      generation_call [system_turn] ''What is the return policy?''
        ''Returns are accepted within 30 days of purchase.'']"

definition token_event :: "string \<Rightarrow> sse_event" where
  "token_event c = \<lparr>token = c, event_session_id = policy_session\<rparr>"

text \<open>
  The history a completed turn leaves: the history the request started from, the
  user turn with the question as it was asked, and the assistant turn.
\<close>

definition completed_history :: "world \<Rightarrow> query_input \<Rightarrow> string \<Rightarrow> message list" where
  "completed_history w request answer =
     initial_messages w request
       @ [\<lparr>role = ''user'', content = question request\<rparr>,
          \<lparr>role = ''assistant'', content = answer\<rparr>]"


text \<open>
  \<open>no_commit w w'\<close>: from \<open>w\<close> to \<open>w'\<close> calls were only added, none of them a write of
  the chat history, and the history documents are the same.
\<close>

definition no_commit :: "world \<Rightarrow> world \<Rightarrow> bool" where
  "no_commit w w' \<longleftrightarrow> history w' = history w \<and> (\<exists>cs. calls w' = calls w @ cs \<and> commits cs = [])"

section \<open>Strings and the classifier's check order\<close>

lemma startswith_prefix: "startswith s p \<longleftrightarrow> prefix p s"
  unfolding startswith_def prefix_def by (metis append_eq_conv_conj)

lemma str_in_sublist: "str_in n h \<longleftrightarrow> sublist n h"
  by (induction h) (simp_all add: startswith_prefix sublist_Cons_right)

lemma relevant_in_irrelevant: "str_in ''irrelevant'' s \<Longrightarrow> str_in ''relevant'' s"
proof -
  assume "str_in ''irrelevant'' s"
  then have "sublist ''irrelevant'' s" by (simp add: str_in_sublist)
  moreover have "sublist ''relevant'' ''irrelevant''"
    unfolding sublist_def by (rule exI[of _ "''ir''"], rule exI[of _ "[]"]) simp
  ultimately have "sublist ''relevant'' s" by (rule sublist_order.order.trans[rotated])
  then show ?thesis by (simp add: str_in_sublist)
qed

lemma lower_names:
  "lower ''irrelevant'' = ''irrelevant''" "lower ''relevant'' = ''relevant''"
  "lower ''complex'' = ''complex''"
  by (simp_all add: lower_def lower_char_def)

lemma classify_output_cases:
  "classify_output c =
     (if str_in ''irrelevant'' (lower c) then ''irrelevant''
      else if str_in ''relevant'' (lower c) then ''relevant''
      else if str_in ''complex'' (lower c) then ''complex''
      else ''relevant'')"
  by (simp add: classify_output_def valid_categories_def lower_names)

lemma call_model_calls:
  "call_model ev w msgs n s = (r, w') \<Longrightarrow>
     w' = log_call (ModelCall \<lparr>messages = msgs, max_tokens = n, stream = s\<rparr>) w"
  by (auto simp: call_model_def Let_def split: sum.splits if_splits)

lemma call_model_completion:
  "call_model ev w msgs n False = (Inr r, w') \<Longrightarrow> \<exists>c. r = Completion c"
  by (cases "vllm_post ev (calls w) \<lparr>messages = msgs, max_tokens = n, stream = False\<rparr>";
      cases "completion_content (projr (vllm_post ev (calls w) \<lparr>messages = msgs, max_tokens = n, stream = False\<rparr>))")
     (auto simp: call_model_def Let_def)

section \<open>What each step adds to the calls\<close>

lemma commits_append: "commits (xs @ ys) = commits xs @ commits ys"
  by (induction xs rule: commits.induct) simp_all

lemma no_commit_refl: "no_commit w w"
  by (simp add: no_commit_def)

lemma no_commit_trans: "no_commit w w1 \<Longrightarrow> no_commit w1 w2 \<Longrightarrow> no_commit w w2"
  by (auto simp: no_commit_def commits_append)

lemma no_commit_log: "commits [c] = [] \<Longrightarrow> no_commit w (log_call c w)"
  by (simp add: no_commit_def log_call_def)

lemma call_model_no_commit: "call_model ev w msgs n s = (r, w') \<Longrightarrow> no_commit w w'"
  by (drule call_model_calls) (simp add: no_commit_log)

lemma classify_world:
  "classify ev w query = (r, w') \<Longrightarrow>
     w' = log_call (ModelCall \<lparr>messages = classify_messages query, max_tokens = 5, stream = False\<rparr>) w"
  by (auto simp: classify_def split: prod.splits sum.splits model_result.splits
           dest: call_model_calls)

lemma classify_no_commit: "classify ev w query = (r, w') \<Longrightarrow> no_commit w w'"
  by (drule classify_world) (simp add: no_commit_log)

lemma es_search_world: "es_search ev w query k = (r, w') \<Longrightarrow> w' = log_call (VectorSearch query k) w"
  by (auto simp: es_search_def Let_def split: sum.splits)

lemma es_search_no_commit: "es_search ev w query k = (r, w') \<Longrightarrow> no_commit w w'"
  by (drule es_search_world) (simp add: no_commit_log)

lemma extract_entities_world:
  "extract_entities ev w query = (r, w') \<Longrightarrow>
     w' = log_call (ModelCall \<lparr>messages = extract_entities_messages query, max_tokens = 50, stream = False\<rparr>) w"
  by (auto simp: extract_entities_def split: prod.splits sum.splits model_result.splits
           dest: call_model_calls)

lemma graph_search_loop_no_commit:
  "graph_search_loop ev w entities acc = (r, w') \<Longrightarrow> no_commit w w'"
proof (induction entities arbitrary: w acc)
  case Nil
  then show ?case by (simp add: no_commit_refl)
next
  case (Cons entity rest)
  have step: "no_commit w (log_call (GraphQuery entity) w)" by (simp add: no_commit_log)
  show ?case
  proof (cases "graph_query ev (calls w) entity")
    case (Inl e)
    with Cons.prems step show ?thesis by (simp add: Let_def)
  next
    case (Inr rows)
    with Cons.prems have "no_commit (log_call (GraphQuery entity) w) w'"
      by (auto simp: Let_def intro: Cons.IH)
    with step show ?thesis by (rule no_commit_trans)
  qed
qed

lemma graph_search_loop_calls:
  "graph_search_loop ev w entities acc = (r, w') \<Longrightarrow> \<exists>cs. calls w' = calls w @ cs"
  by (drule graph_search_loop_no_commit) (auto simp: no_commit_def)

lemma graph_search_calls:
  assumes "graph_search ev w query = (r, w')"
  shows "\<exists>cs. calls w' = calls w @ GraphSearch query # cs"
proof (cases "extract_entities ev (log_call (GraphSearch query) w) query")
  case (Pair r1 w1)
  then have w1: "calls w1 = calls w @ [GraphSearch query,
      ModelCall \<lparr>messages = extract_entities_messages query, max_tokens = 50, stream = False\<rparr>]"
    by (auto dest!: extract_entities_world simp: log_call_def)
  show ?thesis
  proof (cases r1)
    case (Inl e)
    with Pair assms w1 show ?thesis by (auto simp: graph_search_def)
  next
    case (Inr entities)
    with Pair assms have "graph_search_loop ev w1 entities [] = (r, w')"
      by (simp add: graph_search_def)
    then obtain cs where "calls w' = calls w1 @ cs" by (auto dest: graph_search_loop_calls)
    with w1 show ?thesis by simp
  qed
qed

lemma graph_search_no_commit:
  assumes "graph_search ev w query = (r, w')"
  shows "no_commit w w'"
proof (cases "extract_entities ev (log_call (GraphSearch query) w) query")
  case (Pair r1 w1)
  have a: "no_commit w (log_call (GraphSearch query) w)" by (simp add: no_commit_log)
  from Pair have "no_commit (log_call (GraphSearch query) w) w1"
    by (auto dest!: extract_entities_world simp: no_commit_log)
  with a have b: "no_commit w w1" by (rule no_commit_trans)
  show ?thesis
  proof (cases r1)
    case (Inl e)
    with Pair assms b show ?thesis by (auto simp: graph_search_def)
  next
    case (Inr entities)
    with Pair assms have "graph_search_loop ev w1 entities [] = (r, w')"
      by (simp add: graph_search_def)
    then have "no_commit w1 w'" by (rule graph_search_loop_no_commit)
    with b show ?thesis by (rule no_commit_trans)
  qed
qed

lemma adaptive_retrieve_no_commit:
  assumes "adaptive_retrieve ev w query k = (r, w')"
  shows "no_commit w w'"
proof (cases "classify ev w query")
  case (Pair c w1)
  then have a: "no_commit w w1" by (rule classify_no_commit)
  obtain v w2 where es: "es_search ev w1 query k = (v, w2)" by (cases "es_search ev w1 query k")
  then have b: "no_commit w1 w2" by (rule es_search_no_commit)
  obtain gr w3 where gs: "graph_search ev w2 query = (gr, w3)" by (cases "graph_search ev w2 query")
  then have c: "no_commit w2 w3" by (rule graph_search_no_commit)
  from a b have ab: "no_commit w w2" by (rule no_commit_trans)
  from ab c have abc: "no_commit w w3" by (rule no_commit_trans)
  show ?thesis
    using assms Pair es gs a ab abc
    by (cases c; cases gr) (auto simp: adaptive_retrieve_def split: if_splits)
qed

lemma retrieve_no_commit: "retrieve r ev w query k = (res, w') \<Longrightarrow> no_commit w w'"
  by (cases r)
     (auto split: prod.splits dest: es_search_no_commit graph_search_no_commit
        adaptive_retrieve_no_commit)

lemma generate_no_commit: "generate ev w query msgs ctx = (r, w') \<Longrightarrow> no_commit w w'"
  by (auto simp: generate_def Let_def dest: call_model_no_commit)

lemma rag_call_no_commit:
  assumes "rag_call r ev w query msgs k = (res, w')"
  shows "no_commit w w'"
proof (cases "retrieve r ev w query k")
  case (Pair c w1)
  then have a: "no_commit w w1" by (rule retrieve_no_commit)
  show ?thesis
  proof (cases c)
    case (Inl e)
    with Pair assms a show ?thesis by (simp add: rag_call_def)
  next
    case (Inr ctx)
    with Pair assms have "generate ev w1 query msgs ctx = (res, w')" by (simp add: rag_call_def)
    then have "no_commit w1 w'" by (rule generate_no_commit)
    with a show ?thesis by (rule no_commit_trans)
  qed
qed

lemma get_chat_history_no_commit: "get_chat_history w sid = (m, w') \<Longrightarrow> no_commit w w'"
  by (auto simp: get_chat_history_def no_commit_log)

section \<open>The endpoint and the generator\<close>

lemma chat_rejected: "select_rag (rag_type request) = Inl e \<Longrightarrow> chat ev w request = (Inl e, w)"
  by (simp add: chat_def)

lemma chat_selected:
  assumes "select_rag (rag_type request) = Inr rag_instance"
  shows "\<exists>sid w1. no_commit w w1 \<and>
           chat ev w request =
             (case rag_call rag_instance ev w1 (question request) (initial_messages w request) 5 of
                (Inl e, w2) \<Rightarrow> (Inl e, w2)
              | (Inr (Completion text), w2) \<Rightarrow> (Inl AttributeError, w2)
              | (Inr (Streaming response_stream), w2) \<Rightarrow>
                  (Inr \<lparr>g_session_id = sid,
                        g_messages = initial_messages w request
                                       @ [\<lparr>role = ''user'', content = question request\<rparr>],
                        g_lines = resp_lines response_stream,
                        final_full_response = [],
                        g_phase = Running\<rparr>, w2))"
proof (cases "session_id request = None \<or> session_id request = Some []")
  case True
  with assms have "no_commit w w \<and>
           chat ev w request =
             (case rag_call rag_instance ev w (question request) (initial_messages w request) 5 of
                (Inl e, w2) \<Rightarrow> (Inl e, w2)
              | (Inr (Completion text), w2) \<Rightarrow> (Inl AttributeError, w2)
              | (Inr (Streaming response_stream), w2) \<Rightarrow>
                  (Inr \<lparr>g_session_id = uuid4 ev (calls w),
                        g_messages = initial_messages w request
                                       @ [\<lparr>role = ''user'', content = question request\<rparr>],
                        g_lines = resp_lines response_stream,
                        final_full_response = [],
                        g_phase = Running\<rparr>, w2))"
    by (auto simp: chat_def initial_messages_def no_commit_refl Let_def
             split: prod.splits sum.splits model_result.splits)
  then show ?thesis by blast
next
  case False
  then obtain sid where sid: "session_id request = Some sid" "sid \<noteq> []" by auto
  with assms have "no_commit w (log_call (HistoryGet sid) w) \<and>
           chat ev w request =
             (case rag_call rag_instance ev (log_call (HistoryGet sid) w) (question request)
                     (initial_messages w request) 5 of
                (Inl e, w2) \<Rightarrow> (Inl e, w2)
              | (Inr (Completion text), w2) \<Rightarrow> (Inl AttributeError, w2)
              | (Inr (Streaming response_stream), w2) \<Rightarrow>
                  (Inr \<lparr>g_session_id = sid,
                        g_messages = initial_messages w request
                                       @ [\<lparr>role = ''user'', content = question request\<rparr>],
                        g_lines = resp_lines response_stream,
                        final_full_response = [],
                        g_phase = Running\<rparr>, w2))"
    by (auto simp: chat_def initial_messages_def get_chat_history_def no_commit_log Let_def
             split: prod.splits sum.splits model_result.splits option.splits)
  then show ?thesis by blast
qed

lemma chat_accepted:
  assumes "chat ev w request = (Inr g, w2)"
  shows "\<exists>rag_instance w1 resp.
           select_rag (rag_type request) = Inr rag_instance \<and> no_commit w w1 \<and>
           rag_call rag_instance ev w1 (question request) (initial_messages w request) 5
             = (Inr (Streaming resp), w2) \<and>
           g_messages g = initial_messages w request
                            @ [\<lparr>role = ''user'', content = question request\<rparr>] \<and>
           g_lines g = resp_lines resp \<and> final_full_response g = [] \<and> g_phase g = Running"
proof (cases "select_rag (rag_type request)")
  case (Inl e)
  with assms show ?thesis by (simp add: chat_rejected)
next
  case (Inr rag_instance)
  from chat_selected[OF this, of w ev] obtain sid w1 where
    nc: "no_commit w w1" and
    eq: "chat ev w request =
             (case rag_call rag_instance ev w1 (question request) (initial_messages w request) 5 of
                (Inl e, w2) \<Rightarrow> (Inl e, w2)
              | (Inr (Completion text), w2) \<Rightarrow> (Inl AttributeError, w2)
              | (Inr (Streaming response_stream), w2) \<Rightarrow>
                  (Inr \<lparr>g_session_id = sid,
                        g_messages = initial_messages w request
                                       @ [\<lparr>role = ''user'', content = question request\<rparr>],
                        g_lines = resp_lines response_stream,
                        final_full_response = [],
                        g_phase = Running\<rparr>, w2))" by blast
  from assms eq Inr nc show ?thesis
    by (auto split: prod.splits sum.splits model_result.splits)
qed

lemma chat_no_commit:
  assumes "chat ev w request = (r, w2)"
  shows "no_commit w w2"
proof (cases "select_rag (rag_type request)")
  case (Inl e)
  with assms show ?thesis by (simp add: chat_rejected no_commit_refl)
next
  case (Inr rag_instance)
  from chat_selected[OF this, of w ev] obtain sid w1 where
    nc: "no_commit w w1" and
    eq: "chat ev w request =
             (case rag_call rag_instance ev w1 (question request) (initial_messages w request) 5 of
                (Inl e, w2) \<Rightarrow> (Inl e, w2)
              | (Inr (Completion text), w2) \<Rightarrow> (Inl AttributeError, w2)
              | (Inr (Streaming response_stream), w2) \<Rightarrow>
                  (Inr \<lparr>g_session_id = sid,
                        g_messages = initial_messages w request
                                       @ [\<lparr>role = ''user'', content = question request\<rparr>],
                        g_lines = resp_lines response_stream,
                        final_full_response = [],
                        g_phase = Running\<rparr>, w2))" by blast
  obtain res w3 where rc: "rag_call rag_instance ev w1 (question request) (initial_messages w request) 5 = (res, w3)"
    by (cases "rag_call rag_instance ev w1 (question request) (initial_messages w request) 5")
  then have "no_commit w1 w3" by (rule rag_call_no_commit)
  with nc have "no_commit w w3" by (rule no_commit_trans)
  moreover from assms eq rc have "w2 = w3"
    by (auto split: sum.splits model_result.splits)
  ultimately show ?thesis by simp
qed



lemma consume_terminal:
  "g_phase g = Terminal \<Longrightarrow>
     consume ev (Suc n) g w =
       ([], Completed,
        g\<lparr>g_messages := g_messages g @ [\<lparr>role = ''assistant'', content = final_full_response g\<rparr>],
          g_phase := Finished\<rparr>,
        store_chat_history w (g_session_id g)
          (g_messages g @ [\<lparr>role = ''assistant'', content = final_full_response g\<rparr>]))"
  by (simp add: resume_def Let_def)

lemma consume_running:
  assumes "g_phase g = Running" and "consume ev n g w = (es, out, g', w')"
  shows "final_full_response g' = final_full_response g @ concat (map token es)
         \<and> (\<forall>e \<in> set es. event_session_id e = g_session_id g)
         \<and> (out = Completed \<longrightarrow>
              w' = store_chat_history w (g_session_id g)
                     (g_messages g @ [\<lparr>role = ''assistant'', content = final_full_response g'\<rparr>])
              \<and> es \<noteq> [] \<and> token (last es) = [])
         \<and> (out \<noteq> Completed \<longrightarrow> w' = w)"
  using assms
proof (induction n arbitrary: g es)
  case 0
  then show ?case by simp
next
  case (Suc n)
  show ?case
  proof (cases "next_content ev (g_lines g)")
    case (Token c rest)
    let ?g1 = "g\<lparr>g_lines := rest, final_full_response := final_full_response g @ c\<rparr>"
    obtain es1 where c1: "consume ev n ?g1 w = (es1, out, g', w')"
      and es: "es = \<lparr>token = c, event_session_id = g_session_id g\<rparr> # es1"
      using Suc.prems Token by (auto simp: resume_def split: prod.splits)
    have "g_phase ?g1 = Running" using Suc.prems by simp
    from Suc.IH[OF this c1] es show ?thesis by auto
  next
    case EndOfStream
    let ?g1 = "g\<lparr>g_phase := Terminal\<rparr>"
    obtain es1 where c1: "consume ev n ?g1 w = (es1, out, g', w')"
      and es: "es = \<lparr>token = [], event_session_id = g_session_id g\<rparr> # es1"
      using Suc.prems EndOfStream by (auto simp: resume_def split: prod.splits)
    show ?thesis
    proof (cases n)
      case 0
      with c1 es show ?thesis by auto
    next
      case (Suc m)
      have "g_phase ?g1 = Terminal" by simp
      from consume_terminal[OF this, of ev m w] c1 Suc es show ?thesis
        by (auto simp del: consume.simps)
    qed
  next
    case (ScanError e)
    with Suc.prems show ?thesis by (auto simp: resume_def)
  qed
qed




lemma chat_dispatch:
  assumes "select_rag (rag_type request) = Inr rag_instance"
  shows "chat ev w request =
           (case rag_call rag_instance ev
                   (if session_id request = None \<or> session_id request = Some [] then w
                    else log_call (HistoryGet (the (session_id request))) w)
                   (question request) (initial_messages w request) 5 of
              (Inl e, w2) \<Rightarrow> (Inl e, w2)
            | (Inr (Completion text), w2) \<Rightarrow> (Inl AttributeError, w2)
            | (Inr (Streaming response_stream), w2) \<Rightarrow>
                (Inr \<lparr>g_session_id =
                        (if session_id request = None \<or> session_id request = Some []
                         then uuid4 ev (calls w) else the (session_id request)),
                      g_messages = initial_messages w request
                                     @ [\<lparr>role = ''user'', content = question request\<rparr>],
                      g_lines = resp_lines response_stream,
                      final_full_response = [],
                      g_phase = Running\<rparr>, w2))"
proof (cases "session_id request = None \<or> session_id request = Some []")
  case True
  with assms show ?thesis
    by (auto simp: chat_def initial_messages_def Let_def
             split: prod.splits sum.splits model_result.splits)
next
  case False
  then obtain sid where sid: "session_id request = Some sid" "sid \<noteq> []" by auto
  with assms show ?thesis
    by (auto simp: chat_def initial_messages_def get_chat_history_def Let_def
             split: prod.splits sum.splits model_result.splits option.splits)
qed

lemma select_rag_iff:
  "select_rag requested = Inr r \<longleftrightarrow>
     (lower requested = ''fusion'' \<and> r = FusionRAG
      \<or> lower requested = ''graph'' \<and> r = GraphRAG
      \<or> lower requested = ''adaptive'' \<and> r = AdaptiveRAG)"
  by (auto simp: select_rag_def RAG_REGISTRY_def Let_def)

section \<open>The scenarios, run\<close>

text \<open>The concrete backends, evaluated: each fact is one run of the code on them.\<close>

lemmas classifier_eval = classify_def call_model_def fixed_env_def classifier_env_def w0_def
  log_call_def completion_content_def completion_json_def bind_err_def strip_def isspace_def
  classify_output_cases lower_def lower_char_def char_of_def bit_Suc_0_iff startswith_def
  tie_break_output_def

lemmas backend_eval = call_model_def fixed_env_def classifier_env_def w0_def log_call_def
  completion_content_def completion_json_def bind_err_def strip_def isspace_def
  es_search_def graph_search_def extract_entities_def clean_text_def
  es_down_env_def graph_down_env_def policy_env_def truncated_env_def unreachable_env_def

lemmas stream_eval = resume_def policy_generator_def answer_lines_def truncated_lines_def
  answer_tokens_def policy_env_def truncated_env_def fixed_env_def startswith_def strip_def
  isspace_def delta_content_def chunk_parser_def chunk_text_def chunk_json_def bind_err_def
  store_chat_history_def log_call_def Let_def

lemma classify_irrelevant_run:
  "classify (classifier_env ''Irrelevant'') w0 laptop_query
     = (Inr ''irrelevant'', \<lparr>calls = [classification_call laptop_query], history = Map.empty\<rparr>)"
  by (simp add: classifier_eval classification_call_def)

lemma classify_relevant_run:
  "classify policy_env w0 laptop_query
     = (Inr ''relevant'', \<lparr>calls = [classification_call laptop_query], history = Map.empty\<rparr>)"
  by (simp add: classifier_eval policy_env_def classification_call_def)

lemma classify_complex_run:
  "classify (es_down_env ''Complex'') w0 laptop_query
     = (Inr ''complex'', \<lparr>calls = [classification_call laptop_query], history = Map.empty\<rparr>)"
  by (simp add: classifier_eval es_down_env_def classification_call_def)

lemma classify_complex_empty_run:
  "classify (classifier_env ''Complex'') w0 laptop_query
     = (Inr ''complex'', \<lparr>calls = [classification_call laptop_query], history = Map.empty\<rparr>)"
  by (simp add: classifier_eval classification_call_def)

lemma classify_relevant_down_run:
  "classify (es_down_env ''Relevant'') w0 laptop_query
     = (Inr ''relevant'', \<lparr>calls = [classification_call laptop_query], history = Map.empty\<rparr>)"
  by (simp add: classifier_eval es_down_env_def classification_call_def)

lemma es_search_empty_run:
  "es_search (classifier_env ''Complex'') \<lparr>calls = cs, history = h\<rparr> laptop_query 5
     = ([], \<lparr>calls = cs @ [VectorSearch laptop_query 5], history = h\<rparr>)"
  by (simp add: backend_eval)

lemma graph_search_empty_run:
  "graph_search (classifier_env ''Complex'') \<lparr>calls = cs, history = h\<rparr> laptop_query
     = (Inr [], \<lparr>calls = cs @ [GraphSearch laptop_query, entity_call laptop_query], history = h\<rparr>)"
  by (simp add: backend_eval entity_call_def)

lemma es_search_down_run:
  "es_search (es_down_env ''Complex'') \<lparr>calls = cs, history = h\<rparr> laptop_query 5
     = ([], \<lparr>calls = cs @ [VectorSearch laptop_query 5], history = h\<rparr>)"
  by (simp add: backend_eval)

lemma graph_search_alice_run:
  "graph_search (es_down_env ''Complex'') \<lparr>calls = cs, history = h\<rparr> laptop_query
     = (Inr (''Alice - WORKS_FOR -> Acme'' @ [CHR 0x0A]),
        \<lparr>calls = cs @ [GraphSearch laptop_query, entity_call laptop_query, GraphQuery ''Alice''],
          history = h\<rparr>)"
  by (simp add: backend_eval entity_call_def newline_def)

lemma chat_policy_run:
  "chat policy_env w0 policy_request
     = (Inr (policy_generator answer_lines), \<lparr>calls = policy_calls, history = Map.empty\<rparr>)"
  by (simp add: chat_def select_rag_def RAG_REGISTRY_def policy_request_def rag_call_def
        adaptive_retrieve_def classifier_eval policy_env_def es_search_def generate_def
        policy_generator_def policy_session_def system_turn_def user_turn_def policy_calls_def
        classification_call_def generation_call_def newline_def)



lemma consume_policy_all:
  "consume policy_env 7 (policy_generator answer_lines) \<lparr>calls = cs, history = h\<rparr>
     = (map token_event [''The'', '' return'', '' policy'', '' is'', '' 30 days.'', []],
        Completed,
        (policy_generator [[], ''data: [DONE]'', []])
          \<lparr>g_messages := [system_turn, user_turn,
               \<lparr>role = ''assistant'', content = ''The return policy is 30 days.''\<rparr>],
            final_full_response := ''The return policy is 30 days.'',
            g_phase := Finished\<rparr>,
        \<lparr>calls = cs @ [HistoryPut policy_session [system_turn, user_turn,
               \<lparr>role = ''assistant'', content = ''The return policy is 30 days.''\<rparr>]],
          history = h(policy_session \<mapsto> [system_turn, user_turn,
               \<lparr>role = ''assistant'', content = ''The return policy is 30 days.''\<rparr>])\<rparr>)"
  by (simp add: eval_nat_numeral stream_eval token_event_def)



lemma rag_call_graph_run:
  "rag_call GraphRAG policy_env \<lparr>calls = cs, history = h\<rparr> ''What is the return policy?''
     earlier_turns 5
   = (Inr (Streaming \<lparr>resp_json = Inl JSONDecodeError, resp_lines = answer_lines\<rparr>),
      \<lparr>calls = cs @ [GraphSearch ''What is the return policy?'',
                      entity_call ''What is the return policy?'',
                      generation_call earlier_turns ''What is the return policy?'' []],
        history = h\<rparr>)"
  by (simp add: rag_call_def backend_eval entity_call_def generate_def generation_call_def)

lemma rag_call_fusion_run:
  "rag_call FusionRAG policy_env \<lparr>calls = cs, history = h\<rparr> ''What is the return policy?''
     earlier_turns 5
   = (Inr (Streaming \<lparr>resp_json = Inl JSONDecodeError, resp_lines = answer_lines\<rparr>),
      \<lparr>calls = cs @ [VectorSearch ''What is the return policy?'' 5,
                      generation_call earlier_turns ''What is the return policy?''
                        ''Returns are accepted within 30 days of purchase.''],
        history = h\<rparr>)"
  by (simp add: rag_call_def backend_eval generate_def generation_call_def)

lemma rag_call_adaptive_run:
  "rag_call AdaptiveRAG policy_env \<lparr>calls = cs, history = h\<rparr> ''What is the return policy?''
     earlier_turns 5
   = (Inr (Streaming \<lparr>resp_json = Inl JSONDecodeError, resp_lines = answer_lines\<rparr>),
      \<lparr>calls = cs @ [classification_call ''What is the return policy?'',
                      VectorSearch ''What is the return policy?'' 5,
                      generation_call earlier_turns ''What is the return policy?''
                        ''Returns are accepted within 30 days of purchase.''],
        history = h\<rparr>)"
  by (simp add: rag_call_def adaptive_retrieve_def classifier_eval policy_env_def es_search_def
        classification_call_def generate_def generation_call_def)

section \<open>Claims\<close>

subsection \<open>C1: the policy table of the router\<close>

lemma classify_output_valid: "classify_output c \<in> set valid_categories"
  by (simp add: classify_output_cases valid_categories_def)

lemma classify_valid: "classify ev w query = (Inr c, w1) \<Longrightarrow> c \<in> set valid_categories"
  by (auto simp: classify_def classify_output_valid
           split: prod.splits sum.splits model_result.splits)

text \<open>
  C1: \<open>AdaptiveRAG.retrieve\<close> follows the policy table. The classification is one call
  to the generation backend and returns a member of the closed set. For \<open>irrelevant\<close>
  no call follows it and the context is empty; for \<open>relevant\<close> the only call that follows
  is the unstructured search with \<open>top_k = k\<close>, whose text is returned as it is; for
  \<open>complex\<close> the unstructured search and then the graph search are invoked.
\<close>

theorem router_policy:
  assumes "classify ev w query = (Inr category, w1)"
  shows "category \<in> set valid_categories
     \<and> calls w1 = calls w @ [ModelCall \<lparr>messages = classify_messages query, max_tokens = 5,
                                         stream = False\<rparr>]
     \<and> (category = ''irrelevant'' \<longrightarrow> adaptive_retrieve ev w query k = (Inr [], w1))
     \<and> (category = ''relevant'' \<longrightarrow>
          adaptive_retrieve ev w query k =
            (Inr (case asimilarity_search ev (calls w1) query k of
                    Inl e \<Rightarrow> [] | Inr docs \<Rightarrow> join newline docs),
             w1\<lparr>calls := calls w1 @ [VectorSearch query k]\<rparr>))
     \<and> (category = ''complex'' \<longrightarrow>
          (\<exists>rest. calls (snd (adaptive_retrieve ev w query k))
                    = calls w1 @ VectorSearch query k # GraphSearch query # rest))"
proof -
  have valid: "category \<in> set valid_categories" using assms by (rule classify_valid)
  have trace: "calls w1 = calls w @ [ModelCall \<lparr>messages = classify_messages query,
                                       max_tokens = 5, stream = False\<rparr>]"
    using classify_world[OF assms] by (simp add: log_call_def)
  have irr: "category = ''irrelevant'' \<longrightarrow> adaptive_retrieve ev w query k = (Inr [], w1)"
    using assms by (simp add: adaptive_retrieve_def)
  have rel: "category = ''relevant'' \<longrightarrow>
          adaptive_retrieve ev w query k =
            (Inr (case asimilarity_search ev (calls w1) query k of
                    Inl e \<Rightarrow> [] | Inr docs \<Rightarrow> join newline docs),
             w1\<lparr>calls := calls w1 @ [VectorSearch query k]\<rparr>)"
    using assms
    by (auto simp: adaptive_retrieve_def es_search_def log_call_def Let_def split: sum.splits)
  have cpx: "category = ''complex'' \<longrightarrow>
          (\<exists>rest. calls (snd (adaptive_retrieve ev w query k))
                    = calls w1 @ VectorSearch query k # GraphSearch query # rest)"
  proof
    assume c: "category = ''complex''"
    obtain v w2 where es: "es_search ev w1 query k = (v, w2)"
      by (cases "es_search ev w1 query k")
    then have w2: "calls w2 = calls w1 @ [VectorSearch query k]"
      by (auto dest!: es_search_world simp: log_call_def)
    obtain gr w3 where gs: "graph_search ev w2 query = (gr, w3)"
      by (cases "graph_search ev w2 query")
    then obtain rest where w3: "calls w3 = calls w2 @ GraphSearch query # rest"
      by (auto dest: graph_search_calls)
    have "snd (adaptive_retrieve ev w query k) = w3"
      using assms c es gs by (cases gr) (simp_all add: adaptive_retrieve_def)
    with w2 w3 show "\<exists>rest. calls (snd (adaptive_retrieve ev w query k))
                    = calls w1 @ VectorSearch query k # GraphSearch query # rest"
      by simp
  qed
  from valid trace irr rel cpx show ?thesis by blast
qed

theorem router_policy_witness:
  "adaptive_retrieve (classifier_env ''Irrelevant'') w0 laptop_query 5
     = (Inr [], \<lparr>calls = [classification_call laptop_query], history = Map.empty\<rparr>)
   \<and> adaptive_retrieve policy_env w0 laptop_query 5
     = (Inr ''Returns are accepted within 30 days of purchase.'',
        \<lparr>calls = [classification_call laptop_query, VectorSearch laptop_query 5],
          history = Map.empty\<rparr>)
   \<and> take 3 (calls (snd (adaptive_retrieve (es_down_env ''Complex'') w0 laptop_query 5)))
     = [classification_call laptop_query, VectorSearch laptop_query 5, GraphSearch laptop_query]"
proof -
  from router_policy[OF classify_irrelevant_run, of 5]
  have a: "adaptive_retrieve (classifier_env ''Irrelevant'') w0 laptop_query 5
     = (Inr [], \<lparr>calls = [classification_call laptop_query], history = Map.empty\<rparr>)"
    by simp
  from router_policy[OF classify_relevant_run, of 5]
  have b: "adaptive_retrieve policy_env w0 laptop_query 5
     = (Inr ''Returns are accepted within 30 days of purchase.'',
        \<lparr>calls = [classification_call laptop_query, VectorSearch laptop_query 5],
          history = Map.empty\<rparr>)"
    by (simp add: policy_env_def fixed_env_def)
  from router_policy[OF classify_complex_run, of 5]
  have c: "take 3 (calls (snd (adaptive_retrieve (es_down_env ''Complex'') w0 laptop_query 5)))
     = [classification_call laptop_query, VectorSearch laptop_query 5, GraphSearch laptop_query]"
    by auto
  from a b c show ?thesis by simp
qed

subsection \<open>C2: the check order of the classifier\<close>

text \<open>
  C2, as stated, fails: the classifier output \<open>This is Relevant but also Complex\<close>
  contains \<open>complex\<close> in some letter case, and \<open>_classify\<close> returns \<open>relevant\<close>, because
  \<open>relevant\<close> is checked before \<open>complex\<close> and the first name found is returned.
\<close>

theorem tie_break_counterexample:
  "fst (call_model (classifier_env tie_break_output) w0 (classify_messages laptop_query) 5 False)
     = Inr (Completion ''This is Relevant but also Complex'')
   \<and> str_in ''complex'' (lower ''This is Relevant but also Complex'')
   \<and> str_in ''relevant'' (lower ''This is Relevant but also Complex'')
   \<and> fst (classify (classifier_env tie_break_output) w0 laptop_query) = Inr ''relevant''
   \<and> fst (classify (classifier_env tie_break_output) w0 laptop_query) \<noteq> Inr ''complex''"
  by (simp add: classifier_eval)

text \<open>
  C2, amended: when the generation backend answers the classification call with the
  text \<open>category\<close>, \<open>_classify\<close> returns \<open>complex\<close> exactly when \<open>category\<close> contains
  \<open>complex\<close> in some letter case and does not contain \<open>relevant\<close> in any letter case
  (which \<open>irrelevant\<close> contains too).
\<close>

theorem classify_complex_iff:
  assumes "call_model ev w (classify_messages query) 5 False = (Inr (Completion category), w')"
  shows "fst (classify ev w query) = Inr ''complex'' \<longleftrightarrow>
           str_in ''complex'' (lower category) \<and> \<not> str_in ''relevant'' (lower category)"
  using assms relevant_in_irrelevant[of "lower category"]
  by (auto simp: classify_def classify_output_cases)

theorem classify_complex_iff_witness:
  "call_model (classifier_env ''Complex'') w0 (classify_messages laptop_query) 5 False
     = (Inr (Completion ''Complex''),
        log_call (ModelCall \<lparr>messages = classify_messages laptop_query, max_tokens = 5,
                              stream = False\<rparr>) w0)
   \<and> str_in ''complex'' (lower ''Complex'') \<and> \<not> str_in ''relevant'' (lower ''Complex'')
   \<and> fst (classify (classifier_env ''Complex'') w0 laptop_query) = Inr ''complex''"
proof -
  have h: "call_model (classifier_env ''Complex'') w0 (classify_messages laptop_query) 5 False
     = (Inr (Completion ''Complex''),
        log_call (ModelCall \<lparr>messages = classify_messages laptop_query, max_tokens = 5,
                              stream = False\<rparr>) w0)"
    by (simp add: call_model_def fixed_env_def classifier_env_def w0_def log_call_def
          completion_content_def completion_json_def bind_err_def strip_def isspace_def)
  have c: "str_in ''complex'' (lower ''Complex'') \<and> \<not> str_in ''relevant'' (lower ''Complex'')"
    by (simp add: lower_def lower_char_def char_of_def bit_Suc_0_iff startswith_def)
  from classify_complex_iff[OF h] c h show ?thesis by simp
qed

subsection \<open>C3: the committed history\<close>

lemma completed_turn:
  assumes "chat ev w request = (Inr g, w1)"
      and "consume ev n g w1 = (events, out, g', w')"
  shows "final_full_response g' = concat (map token events)
       \<and> (out = Completed \<longrightarrow>
            w' = store_chat_history w1 (g_session_id g)
                   (completed_history w request (concat (map token events)))
            \<and> events \<noteq> [] \<and> token (last events) = [])
       \<and> (out \<noteq> Completed \<longrightarrow> w' = w1)
       \<and> (\<forall>e \<in> set events. event_session_id e = g_session_id g)"
proof -
  from chat_accepted[OF assms(1)] have
    g: "g_messages g = initial_messages w request
                         @ [\<lparr>role = ''user'', content = question request\<rparr>]"
       "final_full_response g = []" "g_phase g = Running"
    by auto
  from consume_running[OF g(3) assms(2)] g(1,2) show ?thesis
    by (simp add: completed_history_def)
qed

text \<open>
  C3: when \<open>chat\<close> has returned the generator and its consumption ends with the
  generator finished (\<open>Completed\<close>), the document stored for the session is the history
  the request started from followed by exactly two turns, the user turn with the
  question as asked and the assistant turn with the concatenation of the emitted
  tokens in order. The write is the last call, it is the only write of the history the
  request has added, and the terminal event with the empty token went out before it.
\<close>

theorem history_round_trip:
  assumes "chat ev w request = (Inr g, w1)"
      and "consume ev n g w1 = (events, Completed, g', w')"
  shows "history w' (g_session_id g)
           = Some (completed_history w request (concat (map token events)))
       \<and> calls w' = calls w1 @ [HistoryPut (g_session_id g)
                                   (completed_history w request (concat (map token events)))]
       \<and> commits (calls w') = commits (calls w)
           @ [(g_session_id g, completed_history w request (concat (map token events)))]
       \<and> events \<noteq> [] \<and> token (last events) = []"
proof -
  from completed_turn[OF assms] have
    w': "w' = store_chat_history w1 (g_session_id g)
                (completed_history w request (concat (map token events)))"
    and ev: "events \<noteq> []" "token (last events) = []"
    by simp_all
  from chat_no_commit[OF assms(1)] have "commits (calls w1) = commits (calls w)"
    by (auto simp: no_commit_def commits_append)
  with w' ev show ?thesis
    by (simp add: store_chat_history_def log_call_def commits_append)
qed

theorem history_round_trip_witness:
  "chat policy_env w0 policy_request
     = (Inr (policy_generator answer_lines), \<lparr>calls = policy_calls, history = Map.empty\<rparr>)
   \<and> fst (consume policy_env 7 (policy_generator answer_lines)
            \<lparr>calls = policy_calls, history = Map.empty\<rparr>)
     = map token_event [''The'', '' return'', '' policy'', '' is'', '' 30 days.'', []]
   \<and> fst (snd (consume policy_env 7 (policy_generator answer_lines)
                 \<lparr>calls = policy_calls, history = Map.empty\<rparr>)) = Completed
   \<and> (let w' = snd (snd (snd (consume policy_env 7 (policy_generator answer_lines)
                                 \<lparr>calls = policy_calls, history = Map.empty\<rparr>)))
      in history w' policy_session
           = Some [system_turn, user_turn,
                   \<lparr>role = ''assistant'', content = ''The return policy is 30 days.''\<rparr>]
         \<and> commits (calls w')
           = [(policy_session,
               [system_turn, user_turn,
                \<lparr>role = ''assistant'', content = ''The return policy is 30 days.''\<rparr>])])"
proof -
  note run = consume_policy_all[of policy_calls Map.empty]
  from history_round_trip[OF chat_policy_run run] chat_policy_run run
  show ?thesis
    by (simp add: completed_history_def initial_messages_def policy_request_def
          policy_generator_def token_event_def system_turn_def user_turn_def w0_def)
qed

subsection \<open>C4: errors of the classification call\<close>

text \<open>
  C4, as stated, fails: when the generation backend cannot be reached, \<open>requests.post\<close>
  raises inside \<open>call_model\<close>, neither \<open>call_model\<close> nor \<open>_classify\<close> catches, and the
  exception reaches the caller of \<open>_classify\<close> instead of the default \<open>relevant\<close>.
\<close>

theorem classify_raises_counterexample:
  "fst (classify unreachable_env w0 laptop_query) = Inl ConnectionError"
  by (simp add: classify_def call_model_def unreachable_env_def fixed_env_def)

text \<open>
  C4, amended: an error of the generation backend during the classification call is
  raised to the caller of \<open>_classify\<close>; whenever the call returns a text, \<open>_classify\<close>
  returns a member of \<open>{irrelevant, relevant, complex}\<close>, and \<open>relevant\<close> when no
  category name is found in the text.
\<close>

theorem classify_closed_set:
  assumes "call_model ev w (classify_messages query) 5 False = (r, w')"
  shows "(\<forall>e. r = Inl e \<longrightarrow> classify ev w query = (Inl e, w'))
       \<and> (\<forall>m. r = Inr m \<longrightarrow>
            (\<exists>category v. m = Completion category \<and> classify ev w query = (Inr v, w')
               \<and> v \<in> set valid_categories
               \<and> ((\<forall>name \<in> set valid_categories. \<not> str_in name (lower category))
                    \<longrightarrow> v = ''relevant'')))"
proof (cases r)
  case (Inl e)
  with assms show ?thesis by (simp add: classify_def)
next
  case (Inr m)
  with assms obtain category where m: "m = Completion category"
    by (auto dest: call_model_completion)
  with assms Inr have "classify ev w query = (Inr (classify_output category), w')"
    by (simp add: classify_def)
  moreover have "classify_output category \<in> set valid_categories"
    by (simp add: classify_output_cases valid_categories_def)
  moreover have "(\<forall>name \<in> set valid_categories. \<not> str_in name (lower category))
                    \<longrightarrow> classify_output category = ''relevant''"
    by (simp add: classify_output_cases valid_categories_def)
  ultimately show ?thesis using Inr m by simp
qed

theorem classify_closed_set_witness:
  "classify unreachable_env w0 laptop_query
     = (Inl ConnectionError,
        log_call (ModelCall \<lparr>messages = classify_messages laptop_query, max_tokens = 5,
                              stream = False\<rparr>) w0)
   \<and> \<not> str_in ''irrelevant'' (lower ''I am not sure'')
   \<and> \<not> str_in ''relevant'' (lower ''I am not sure'')
   \<and> \<not> str_in ''complex'' (lower ''I am not sure'')
   \<and> classify (classifier_env ''I am not sure'') w0 laptop_query
     = (Inr ''relevant'',
        log_call (ModelCall \<lparr>messages = classify_messages laptop_query, max_tokens = 5,
                              stream = False\<rparr>) w0)"
proof -
  let ?w = "log_call (ModelCall \<lparr>messages = classify_messages laptop_query, max_tokens = 5,
                              stream = False\<rparr>) w0"
  have down: "call_model unreachable_env w0 (classify_messages laptop_query) 5 False
                = (Inl ConnectionError, ?w)"
    by (simp add: call_model_def unreachable_env_def fixed_env_def w0_def log_call_def)
  have up: "call_model (classifier_env ''I am not sure'') w0 (classify_messages laptop_query) 5 False
                = (Inr (Completion ''I am not sure''), ?w)"
    by (simp add: call_model_def fixed_env_def classifier_env_def w0_def log_call_def
          completion_content_def completion_json_def bind_err_def strip_def isspace_def)
  have none: "\<forall>name \<in> set valid_categories. \<not> str_in name (lower ''I am not sure'')"
    by (simp add: valid_categories_def lower_def lower_char_def char_of_def bit_Suc_0_iff
          startswith_def)
  from classify_closed_set[OF down] classify_closed_set[OF up] none show ?thesis
    by (auto simp: valid_categories_def)
qed

subsection \<open>C5: a failing retrieval backend\<close>

text \<open>
  C5, as stated, fails: with the class \<open>complex\<close>, the similarity search raises and the
  graph search returns a row; the unstructured search contributes the empty string and
  the context is a newline followed by the graph result, not the empty string.
\<close>

theorem vector_failure_counterexample:
  "asimilarity_search (es_down_env ''Complex'') [classification_call laptop_query] laptop_query 5
     = Inl (BackendError ''elasticsearch unavailable'')
   \<and> fst (adaptive_retrieve (es_down_env ''Complex'') w0 laptop_query 5)
     = Inr ([CHR 0x0A] @ ''Alice - WORKS_FOR -> Acme'' @ [CHR 0x0A])
   \<and> fst (adaptive_retrieve (es_down_env ''Complex'') w0 laptop_query 5) \<noteq> Inr []"
  by (simp add: adaptive_retrieve_def classify_complex_run es_search_down_run
        graph_search_alice_run newline_def)
     (simp add: es_down_env_def fixed_env_def)

text \<open>
  C5, amended: whenever the call of the unstructured backend raises during the retrieve
  step, \<open>ElasticsearchRetrievalManager.search\<close> returns the empty string instead of
  raising. Under \<open>FusionRAG\<close> and under the class \<open>relevant\<close> the context is then the
  empty string, under the class \<open>complex\<close> it is a newline followed by the result of the
  graph search when that returns; in each case the request goes on to \<open>generate\<close> with
  that context.
\<close>

theorem vector_failure_recovered:
  assumes "asimilarity_search ev (calls w1) query k = Inl e"
  shows "es_search ev w1 query k = ([], log_call (VectorSearch query k) w1)
       \<and> rag_call FusionRAG ev w1 query msgs k
           = generate ev (log_call (VectorSearch query k) w1) query msgs []
       \<and> (classify ev w query = (Inr ''relevant'', w1) \<longrightarrow>
            rag_call AdaptiveRAG ev w query msgs k
              = generate ev (log_call (VectorSearch query k) w1) query msgs [])
       \<and> (\<forall>g w3. classify ev w query = (Inr ''complex'', w1)
              \<and> graph_search ev (log_call (VectorSearch query k) w1) query = (Inr g, w3) \<longrightarrow>
            rag_call AdaptiveRAG ev w query msgs k = generate ev w3 query msgs ([CHR 0x0A] @ g))"
proof -
  have es: "es_search ev w1 query k = ([], log_call (VectorSearch query k) w1)"
    using assms by (simp add: es_search_def)
  then show ?thesis
    by (simp add: rag_call_def adaptive_retrieve_def newline_def)
qed

theorem vector_failure_recovered_witness:
  "asimilarity_search (es_down_env ''Relevant'') [classification_call laptop_query] laptop_query 5
     = Inl (BackendError ''elasticsearch unavailable'')
   \<and> rag_call AdaptiveRAG (es_down_env ''Relevant'') w0 laptop_query [system_turn] 5
     = (Inr (Streaming \<lparr>resp_json = Inl JSONDecodeError, resp_lines = answer_lines\<rparr>),
        \<lparr>calls = [classification_call laptop_query, VectorSearch laptop_query 5,
                   generation_call [system_turn] laptop_query []],
          history = Map.empty\<rparr>)"
proof -
  have h: "asimilarity_search (es_down_env ''Relevant'')
             (calls \<lparr>calls = [classification_call laptop_query], history = Map.empty\<rparr>)
             laptop_query 5
           = Inl (BackendError ''elasticsearch unavailable'')"
    by (simp add: es_down_env_def fixed_env_def)
  from vector_failure_recovered[OF h, where w = w0 and msgs = "[system_turn]"]
       classify_relevant_down_run h
  show ?thesis
    by (simp add: generate_def call_model_def log_call_def generation_call_def
          es_down_env_def fixed_env_def)
qed

subsection \<open>C6: a failing graph query\<close>

text \<open>
  C6 on the code: two entities are extracted and \<open>graph.query\<close> raises for the first.
  \<open>GraphDatabaseManager.search\<close> raises, the second entity is never queried, and the
  exception passes through \<open>AdaptiveRAG.retrieve\<close> and through \<open>chat\<close>. With one entity and
  no row the contribution is a newline.
\<close>

theorem graph_failure_aborts:
  "graph_search graph_down_env w0 laptop_query
     = (Inl (BackendError ''neo4j unavailable''),
        \<lparr>calls = [GraphSearch laptop_query, entity_call laptop_query, GraphQuery ''Alice''],
          history = Map.empty\<rparr>)
   \<and> fst (adaptive_retrieve graph_down_env w0 laptop_query 5)
     = Inl (BackendError ''neo4j unavailable'')
   \<and> fst (chat graph_down_env w0 (policy_request\<lparr>rag_type := ''graph''\<rparr>))
     = Inl (BackendError ''neo4j unavailable'')
   \<and> fst (graph_search (fixed_env ''Complex'' (Inr []) ''Alice'' (\<lambda>entity. Inr []) [])
            w0 laptop_query)
     = Inr [CHR 0x0A]"
  by (simp add: classifier_eval es_search_def graph_search_def extract_entities_def
        clean_text_def graph_down_env_def entity_call_def adaptive_retrieve_def
        chat_def select_rag_def RAG_REGISTRY_def policy_request_def rag_call_def newline_def)

subsection \<open>C7: an unreachable generation backend\<close>

lemma call_model_unreachable:
  "isl (vllm_post ev (calls w) \<lparr>messages = msgs, max_tokens = n, stream = s\<rparr>)
     \<Longrightarrow> isl (fst (call_model ev w msgs n s))"
  by (auto simp: call_model_def Let_def split: sum.splits)

lemma rag_call_unreachable:
  assumes "\<And>tr p. isl (vllm_post ev tr p)"
  shows "isl (fst (rag_call r ev w query msgs k))"
proof (cases "retrieve r ev w query k")
  case (Pair c w1)
  show ?thesis
  proof (cases c)
    case (Inl e)
    with Pair show ?thesis by (simp add: rag_call_def)
  next
    case (Inr ctx)
    with Pair show ?thesis
      by (simp add: rag_call_def generate_def call_model_unreachable assms)
  qed
qed

text \<open>
  C7: when every POST to the generation backend raises, \<open>chat\<close> raises (\<open>isl\<close>: its
  result is an exception, so no \<open>StreamingResponse\<close> exists and no event is emitted),
  the history documents are the ones from before the request, and no write of the
  history is among the calls.
\<close>

theorem generation_unreachable:
  assumes "\<And>tr p. isl (vllm_post ev tr p)"
  shows "isl (fst (chat ev w request))
       \<and> history (snd (chat ev w request)) = history w
       \<and> commits (calls (snd (chat ev w request))) = commits (calls w)"
proof -
  obtain r w2 where c: "chat ev w request = (r, w2)" by (cases "chat ev w request")
  then have "no_commit w w2" by (rule chat_no_commit)
  then have unchanged: "history w2 = history w" "commits (calls w2) = commits (calls w)"
    by (auto simp: no_commit_def commits_append)
  have "isl r"
  proof (cases "select_rag (rag_type request)")
    case (Inl e)
    with c show ?thesis by (auto simp: chat_rejected)
  next
    case (Inr rag_instance)
    from chat_selected[OF this, of w ev] obtain sid w1 where
      eq: "chat ev w request =
             (case rag_call rag_instance ev w1 (question request) (initial_messages w request) 5 of
                (Inl e, w2) \<Rightarrow> (Inl e, w2)
              | (Inr (Completion text), w2) \<Rightarrow> (Inl AttributeError, w2)
              | (Inr (Streaming response_stream), w2) \<Rightarrow>
                  (Inr \<lparr>g_session_id = sid,
                        g_messages = initial_messages w request
                                       @ [\<lparr>role = ''user'', content = question request\<rparr>],
                        g_lines = resp_lines response_stream,
                        final_full_response = [],
                        g_phase = Running\<rparr>, w2))" by blast
    have "isl (fst (rag_call rag_instance ev w1 (question request) (initial_messages w request) 5))"
      using assms by (rule rag_call_unreachable)
    with eq c show ?thesis
      by (auto split: prod.splits sum.splits)
  qed
  with c unchanged show ?thesis by simp
qed

theorem generation_unreachable_witness:
  "isl (fst (chat unreachable_env returning_world followup_request))
   \<and> history (snd (chat unreachable_env returning_world followup_request)) ''session-42''
       = Some earlier_turns
   \<and> commits (calls (snd (chat unreachable_env returning_world followup_request))) = []"
proof -
  have h: "\<And>tr p. isl (vllm_post unreachable_env tr p)"
    by (simp add: unreachable_env_def)
  from generation_unreachable[of unreachable_env returning_world followup_request, OF h]
  show ?thesis by (simp add: returning_world_def)
qed

subsection \<open>C8: fusion for the complex class\<close>

text \<open>
  C8: for the \<open>complex\<close> class the context is the result of the unstructured search, one
  newline character, and the result of the graph search, whatever the two results are
  (the witness runs it with both empty, and with an empty first one).
\<close>

theorem fusion_exact:
  assumes "classify ev w query = (Inr ''complex'', w1)"
      and "es_search ev w1 query k = (vector_result, w2)"
      and "graph_search ev w2 query = (Inr graph_result, w3)"
  shows "adaptive_retrieve ev w query k = (Inr (vector_result @ [CHR 0x0A] @ graph_result), w3)"
  using assms by (simp add: adaptive_retrieve_def newline_def)

theorem fusion_exact_witness:
  "adaptive_retrieve (classifier_env ''Complex'') w0 laptop_query 5
     = (Inr [CHR 0x0A],
        \<lparr>calls = [classification_call laptop_query, VectorSearch laptop_query 5,
                   GraphSearch laptop_query, entity_call laptop_query],
          history = Map.empty\<rparr>)
   \<and> fst (adaptive_retrieve (es_down_env ''Complex'') w0 laptop_query 5)
     = Inr ([CHR 0x0A] @ ''Alice - WORKS_FOR -> Acme'' @ [CHR 0x0A])"
  using fusion_exact[OF classify_complex_empty_run es_search_empty_run graph_search_empty_run]
        fusion_exact[OF classify_complex_run es_search_down_run graph_search_alice_run]
  by simp

subsection \<open>C9: a stream that does not reach its end\<close>




subsection \<open>C10: the strategy name\<close>

text \<open>
  C10: the requested strategy name is lowered and looked up in the registry. A name
  that lowers to \<open>fusion\<close>, \<open>graph\<close> or \<open>adaptive\<close> selects that handler, the schema
  default \<open>Fusion\<close> among them, and \<open>chat\<close> serves the request with it: after resolving
  the session (a read of the history for a supplied id, a fresh id otherwise) its
  result is that of \<open>__call__\<close> of the selected strategy on the question, the loaded
  or seeded history and \<open>k = 5\<close>, wrapped into the generator. For every other name
  \<open>chat\<close> raises the HTTP error 400 and returns the world as it was: no history read
  and no backend call precede it.
\<close>

theorem strategy_selection:
  "(lower (rag_type request) = ''fusion'' \<longrightarrow> select_rag (rag_type request) = Inr FusionRAG)
   \<and> (lower (rag_type request) = ''graph'' \<longrightarrow> select_rag (rag_type request) = Inr GraphRAG)
   \<and> (lower (rag_type request) = ''adaptive'' \<longrightarrow>
        select_rag (rag_type request) = Inr AdaptiveRAG)
   \<and> (lower (rag_type request) \<notin> {''fusion'', ''graph'', ''adaptive''} \<longrightarrow>
        chat ev w request
          = (Inl (HTTPException 400 (invalid_rag_detail (lower (rag_type request)))), w))
   \<and> select_rag default_rag_type = Inr FusionRAG
   \<and> (\<forall>r. lower (rag_type request) = ''fusion'' \<and> r = FusionRAG
           \<or> lower (rag_type request) = ''graph'' \<and> r = GraphRAG
           \<or> lower (rag_type request) = ''adaptive'' \<and> r = AdaptiveRAG \<longrightarrow>
        chat ev w request =
           (case rag_call r ev
                   (if session_id request = None \<or> session_id request = Some [] then w
                    else log_call (HistoryGet (the (session_id request))) w)
                   (question request) (initial_messages w request) 5 of
              (Inl e, w2) \<Rightarrow> (Inl e, w2)
            | (Inr (Completion text), w2) \<Rightarrow> (Inl AttributeError, w2)
            | (Inr (Streaming response_stream), w2) \<Rightarrow>
                (Inr \<lparr>g_session_id =
                        (if session_id request = None \<or> session_id request = Some []
                         then uuid4 ev (calls w) else the (session_id request)),
                      g_messages = initial_messages w request
                                     @ [\<lparr>role = ''user'', content = question request\<rparr>],
                      g_lines = resp_lines response_stream,
                      final_full_response = [],
                      g_phase = Running\<rparr>, w2)))"
proof -
  have lookup: "(lower (rag_type request) = ''fusion'' \<longrightarrow> select_rag (rag_type request) = Inr FusionRAG)
   \<and> (lower (rag_type request) = ''graph'' \<longrightarrow> select_rag (rag_type request) = Inr GraphRAG)
   \<and> (lower (rag_type request) = ''adaptive'' \<longrightarrow>
        select_rag (rag_type request) = Inr AdaptiveRAG)
   \<and> (lower (rag_type request) \<notin> {''fusion'', ''graph'', ''adaptive''} \<longrightarrow>
        chat ev w request
          = (Inl (HTTPException 400 (invalid_rag_detail (lower (rag_type request)))), w))
   \<and> select_rag default_rag_type = Inr FusionRAG"
    by (simp add: select_rag_def RAG_REGISTRY_def chat_def default_rag_type_def
          lower_def lower_char_def char_of_def bit_Suc_0_iff)
  have dispatch: "\<forall>r. lower (rag_type request) = ''fusion'' \<and> r = FusionRAG
           \<or> lower (rag_type request) = ''graph'' \<and> r = GraphRAG
           \<or> lower (rag_type request) = ''adaptive'' \<and> r = AdaptiveRAG \<longrightarrow>
        chat ev w request =
           (case rag_call r ev
                   (if session_id request = None \<or> session_id request = Some [] then w
                    else log_call (HistoryGet (the (session_id request))) w)
                   (question request) (initial_messages w request) 5 of
              (Inl e, w2) \<Rightarrow> (Inl e, w2)
            | (Inr (Completion text), w2) \<Rightarrow> (Inl AttributeError, w2)
            | (Inr (Streaming response_stream), w2) \<Rightarrow>
                (Inr \<lparr>g_session_id =
                        (if session_id request = None \<or> session_id request = Some []
                         then uuid4 ev (calls w) else the (session_id request)),
                      g_messages = initial_messages w request
                                     @ [\<lparr>role = ''user'', content = question request\<rparr>],
                      g_lines = resp_lines response_stream,
                      final_full_response = [],
                      g_phase = Running\<rparr>, w2))"
  proof (intro allI impI)
    fix r
    assume "lower (rag_type request) = ''fusion'' \<and> r = FusionRAG
           \<or> lower (rag_type request) = ''graph'' \<and> r = GraphRAG
           \<or> lower (rag_type request) = ''adaptive'' \<and> r = AdaptiveRAG"
    then have "select_rag (rag_type request) = Inr r" by (simp add: select_rag_iff)
    then show "chat ev w request =
           (case rag_call r ev
                   (if session_id request = None \<or> session_id request = Some [] then w
                    else log_call (HistoryGet (the (session_id request))) w)
                   (question request) (initial_messages w request) 5 of
              (Inl e, w2) \<Rightarrow> (Inl e, w2)
            | (Inr (Completion text), w2) \<Rightarrow> (Inl AttributeError, w2)
            | (Inr (Streaming response_stream), w2) \<Rightarrow>
                (Inr \<lparr>g_session_id =
                        (if session_id request = None \<or> session_id request = Some []
                         then uuid4 ev (calls w) else the (session_id request)),
                      g_messages = initial_messages w request
                                     @ [\<lparr>role = ''user'', content = question request\<rparr>],
                      g_lines = resp_lines response_stream,
                      final_full_response = [],
                      g_phase = Running\<rparr>, w2))"
      by (rule chat_dispatch)
  qed
  from lookup dispatch show ?thesis by blast
qed

theorem strategy_selection_witness:
  "select_rag ''Fusion'' = Inr FusionRAG
   \<and> select_rag ''GRAPH'' = Inr GraphRAG
   \<and> select_rag ''AdApTiVe'' = Inr AdaptiveRAG
   \<and> chat policy_env returning_world (followup_request\<lparr>rag_type := ''Hybrid''\<rparr>)
       = (Inl (HTTPException 400
                (''Invalid RAG type: hybrid. Available types: ['' @ [CHR 0x27] @ ''fusion''
                   @ [CHR 0x27] @ '', '' @ [CHR 0x27] @ ''graph'' @ [CHR 0x27] @ '', ''
                   @ [CHR 0x27] @ ''adaptive'' @ [CHR 0x27] @ '']'')),
          returning_world)
   \<and> calls (snd (chat policy_env returning_world (followup_request\<lparr>rag_type := ''Fusion''\<rparr>)))
       = [HistoryGet ''session-42'', VectorSearch ''What is the return policy?'' 5,
          generation_call earlier_turns ''What is the return policy?''
            ''Returns are accepted within 30 days of purchase.'']
   \<and> calls (snd (chat policy_env returning_world (followup_request\<lparr>rag_type := ''GRAPH''\<rparr>)))
       = [HistoryGet ''session-42'', GraphSearch ''What is the return policy?'',
          entity_call ''What is the return policy?'',
          generation_call earlier_turns ''What is the return policy?'' []]
   \<and> calls (snd (chat policy_env returning_world
                    (followup_request\<lparr>rag_type := ''AdApTiVe''\<rparr>)))
       = [HistoryGet ''session-42'', classification_call ''What is the return policy?'',
          VectorSearch ''What is the return policy?'' 5,
          generation_call earlier_turns ''What is the return policy?''
            ''Returns are accepted within 30 days of purchase.'']"
proof -
  have l: "lower ''Fusion'' = ''fusion''" "lower ''GRAPH'' = ''graph''"
    "lower ''AdApTiVe'' = ''adaptive''" "lower ''Hybrid'' = ''hybrid''"
    by (simp_all add: lower_def lower_char_def char_of_def bit_Suc_0_iff)
  have req: "initial_messages returning_world (followup_request\<lparr>rag_type := rt\<rparr>) = earlier_turns"
    "session_id (followup_request\<lparr>rag_type := rt\<rparr>) = Some ''session-42''"
    "question (followup_request\<lparr>rag_type := rt\<rparr>) = ''What is the return policy?''"
    "rag_type (followup_request\<lparr>rag_type := rt\<rparr>) = rt"
    for rt
    by (simp_all add: initial_messages_def followup_request_def returning_world_def
          earlier_turns_def)
  have lw: "log_call (HistoryGet ''session-42'') returning_world
              = \<lparr>calls = [HistoryGet ''session-42''],
                 history = [''session-42'' \<mapsto> earlier_turns]\<rparr>"
    by (simp add: log_call_def returning_world_def)
  from strategy_selection[of "followup_request\<lparr>rag_type := ''Fusion''\<rparr>" policy_env
         returning_world] l
  have fusion: "select_rag ''Fusion'' = Inr FusionRAG
    \<and> calls (snd (chat policy_env returning_world (followup_request\<lparr>rag_type := ''Fusion''\<rparr>)))
       = [HistoryGet ''session-42'', VectorSearch ''What is the return policy?'' 5,
          generation_call earlier_turns ''What is the return policy?''
            ''Returns are accepted within 30 days of purchase.'']"
    by (simp add: req lw rag_call_fusion_run)
  from strategy_selection[of "followup_request\<lparr>rag_type := ''GRAPH''\<rparr>" policy_env
         returning_world] l
  have graph: "select_rag ''GRAPH'' = Inr GraphRAG
    \<and> calls (snd (chat policy_env returning_world (followup_request\<lparr>rag_type := ''GRAPH''\<rparr>)))
       = [HistoryGet ''session-42'', GraphSearch ''What is the return policy?'',
          entity_call ''What is the return policy?'',
          generation_call earlier_turns ''What is the return policy?'' []]"
    by (simp add: req lw rag_call_graph_run)
  from strategy_selection[of "followup_request\<lparr>rag_type := ''AdApTiVe''\<rparr>" policy_env
         returning_world] l
  have adaptive: "select_rag ''AdApTiVe'' = Inr AdaptiveRAG
    \<and> calls (snd (chat policy_env returning_world
                    (followup_request\<lparr>rag_type := ''AdApTiVe''\<rparr>)))
       = [HistoryGet ''session-42'', classification_call ''What is the return policy?'',
          VectorSearch ''What is the return policy?'' 5,
          generation_call earlier_turns ''What is the return policy?''
            ''Returns are accepted within 30 days of purchase.'']"
    by (simp add: req lw rag_call_adaptive_run)
  from strategy_selection[of "followup_request\<lparr>rag_type := ''Hybrid''\<rparr>" policy_env
         returning_world] l
  have hybrid: "chat policy_env returning_world (followup_request\<lparr>rag_type := ''Hybrid''\<rparr>)
       = (Inl (HTTPException 400
                (''Invalid RAG type: hybrid. Available types: ['' @ [CHR 0x27] @ ''fusion''
                   @ [CHR 0x27] @ '', '' @ [CHR 0x27] @ ''graph'' @ [CHR 0x27] @ '', ''
                   @ [CHR 0x27] @ ''adaptive'' @ [CHR 0x27] @ '']'')),
          returning_world)"
    by (simp add: req invalid_rag_detail_def RAG_REGISTRY_def)
  from fusion graph adaptive hybrid show ?thesis by simp
qed

end
